theory Spec2Isabelle
  imports Complex_Main "HOL-Library.Multiset"
begin

section \<open>Python values and exceptions\<close>

text \<open>
  The exceptions that the modelled functions raise. A function that may raise returns
  \<open>error + 'a\<close>, with \<open>Inl\<close> for the exception.
\<close>

datatype error =
    OSError | AssertionError | AttributeError | ValueError | OverflowError
  | TypeError | KeyError | NameError | UnboundLocalError | JSONDecodeError

text \<open>
  A Python float is a finite number, an infinity or NaN. Finite arithmetic is exact
  here (no rounding); the special values follow IEEE 754, so that the comparisons and
  conversions of the source can be traced on them.
\<close>

datatype pyfloat = Finite real | PosInf | NegInf | NaN

text \<open>\<open>f <= c\<close> and \<open>f > c\<close> for a finite constant \<open>c\<close>; every comparison with NaN is false.\<close>

fun float_le :: "pyfloat \<Rightarrow> real \<Rightarrow> bool" where
  "float_le (Finite r) c = (r \<le> c)"
| "float_le PosInf c = False"
| "float_le NegInf c = True"
| "float_le NaN c = False"

fun float_gt :: "pyfloat \<Rightarrow> real \<Rightarrow> bool" where
  "float_gt (Finite r) c = (r > c)"
| "float_gt PosInf c = True"
| "float_gt NegInf c = False"
| "float_gt NaN c = False"

text \<open>\<open>f * n\<close> for the length \<open>n\<close> of a list (a non-negative integer).\<close>

fun float_mul_len :: "pyfloat \<Rightarrow> nat \<Rightarrow> pyfloat" where
  "float_mul_len (Finite r) n = Finite (r * real n)"
| "float_mul_len PosInf n = (if n = 0 then NaN else PosInf)"
| "float_mul_len NegInf n = (if n = 0 then NaN else NegInf)"
| "float_mul_len NaN n = NaN"


text \<open>
  \<open>int(f)\<close> truncates towards zero; it raises ValueError on NaN and OverflowError on an
  infinity.
\<close>

fun py_int :: "pyfloat \<Rightarrow> error + int" where
  "py_int (Finite r) = Inr (if 0 \<le> r then \<lfloor>r\<rfloor> else \<lceil>r\<rceil>)"
| "py_int PosInf = Inl OverflowError"
| "py_int NegInf = Inl OverflowError"
| "py_int NaN = Inl ValueError"

text \<open>
  \<open>float(n)\<close> for an integer: OverflowError when \<open>n\<close> rounds beyond the largest double.
\<close>

definition float_overflows :: "int \<Rightarrow> bool" where
  "float_overflows n = (\<bar>n\<bar> \<ge> 2 ^ 1024 - 2 ^ 970)"

definition py_float :: "int \<Rightarrow> error + pyfloat" where
  "py_float n = (if float_overflows n then Inl OverflowError else Inr (Finite (of_int n)))"

text \<open>
  The values a configuration or an argument can hold: what \<open>json.load\<close> produces
  (a dictionary keeps its keys in order, and its keys are strings), and \<open>PyObject\<close> for
  an object of any other type (a datetime, a search-space node), named by a description.
\<close>

datatype pyval =
    PyNone
  | PyBool bool
  | PyInt int
  | PyFloat pyfloat
  | PyStr string
  | PyList "pyval list"
  | PyDict "(string \<times> pyval) list"
  | PyObject string

section \<open>Dataset loader (utils/inputFunctions.py)\<close>

text \<open>
  The files of the data directories: \<open>fs dir name\<close> is the list of lines that
  \<open>readlines\<close> returns for the file \<open>name\<close> of directory \<open>dir\<close>, and \<open>None\<close> when the
  file cannot be opened.
\<close>

type_synonym files = "string \<Rightarrow> string \<Rightarrow> string list option"

definition readlines :: "files \<Rightarrow> string \<Rightarrow> string \<Rightarrow> error + string list" where
  "readlines fs dir name = (case fs dir name of None \<Rightarrow> Inl OSError | Some ls \<Rightarrow> Inr ls)"

text \<open>
  The random number generator is a stream of raw draws. \<open>random.sample(population, k)\<close>
  raises ValueError when \<open>k\<close> is negative or larger than the population; otherwise it
  picks \<open>k\<close> positions without replacement: each draw selects one element of the pool
  that is left and removes it.
\<close>

type_synonym rng = "nat \<Rightarrow> nat"

definition rng_skip :: "nat \<Rightarrow> rng \<Rightarrow> rng" where
  "rng_skip k g = (\<lambda>i. g (i + k))"

fun sample_pool :: "rng \<Rightarrow> 'a list \<Rightarrow> nat \<Rightarrow> 'a list" where
  "sample_pool g pool 0 = []"
| "sample_pool g pool (Suc k) =
     (let j = g 0 mod length pool
      in pool ! j # sample_pool (rng_skip 1 g) (take j pool @ drop (Suc j) pool) k)"

definition random_sample :: "rng \<Rightarrow> 'a list \<Rightarrow> int \<Rightarrow> error + 'a list" where
  "random_sample g population k =
     (if k < 0 \<or> int (length population) < k then Inl ValueError
      else Inr (sample_pool g population (nat k)))"

text \<open>
  \<open>loadData(dataDirectory, ratio)\<close>. \<open>DATA_DIRECTORY\<close> is the module constant
  (\<open>get_data_path()\<close>, defined outside these sources). The five files are read first;
  then the ratio is checked.
\<close>

definition loadData_select ::
  "rng \<Rightarrow> pyval \<Rightarrow> string list \<Rightarrow> string list \<Rightarrow> string list \<Rightarrow> string list
     \<Rightarrow> error + (string list \<times> string list)" where
  "loadData_select g ratio train_pos_sub train_neg_sub train_pos_full train_neg_full =
     (case (case ratio of PyInt n \<Rightarrow> map_sum id PyFloat (py_float n) | v \<Rightarrow> Inr v) of
        Inl e \<Rightarrow> Inl e
      | Inr (PyFloat f) \<Rightarrow>
          if float_le f 0 \<or> float_gt f 1 then Inl AttributeError
          else (case py_int (float_mul_len f (length train_pos_full)) of
                  Inl e \<Rightarrow> Inl e
                | Inr num_samples \<Rightarrow>
                    (case random_sample g train_pos_full num_samples of
                       Inl e \<Rightarrow> Inl e
                     | Inr pos \<Rightarrow>
                         (case random_sample (rng_skip (nat num_samples) g)
                                 train_neg_full num_samples of
                            Inl e \<Rightarrow> Inl e
                          | Inr neg \<Rightarrow> Inr (pos, neg))))
      | Inr (PyStr s) \<Rightarrow>
          if s = ''full'' then Inr (train_pos_full, train_neg_full)
          else if s = ''sub'' then Inr (train_pos_sub, train_neg_sub)
          else Inl AttributeError
      | Inr _ \<Rightarrow> Inl AssertionError)"

definition loadData ::
  "string \<Rightarrow> rng \<Rightarrow> files \<Rightarrow> string option \<Rightarrow> pyval
     \<Rightarrow> error + (string list \<times> string list \<times> string list)" where
  "loadData DATA_DIRECTORY g fs dataDirectory ratio0 =
     (let dir = (case dataDirectory of None \<Rightarrow> DATA_DIRECTORY | Some p \<Rightarrow> p);
          ratio = (if ratio0 = PyNone then PyStr ''sub'' else ratio0)
      in case readlines fs dir ''train_pos.txt'' of Inl e \<Rightarrow> Inl e | Inr train_pos_sub \<Rightarrow>
         (case readlines fs dir ''train_neg.txt'' of Inl e \<Rightarrow> Inl e | Inr train_neg_sub \<Rightarrow>
         (case readlines fs dir ''train_pos_full.txt'' of Inl e \<Rightarrow> Inl e | Inr train_pos_full \<Rightarrow>
         (case readlines fs dir ''train_neg_full.txt'' of Inl e \<Rightarrow> Inl e | Inr train_neg_full \<Rightarrow>
         (case readlines fs dir ''test_data.txt'' of Inl e \<Rightarrow> Inl e | Inr test_full \<Rightarrow>
         (case loadData_select g ratio train_pos_sub train_neg_sub
                 train_pos_full train_neg_full of
            Inl e \<Rightarrow> Inl e
          | Inr (pos, neg) \<Rightarrow> Inr (pos, neg, test_full)))))))"

text \<open>The five data files of a directory, all readable.\<close>

definition data_files ::
  "files \<Rightarrow> string \<Rightarrow> string list \<Rightarrow> string list \<Rightarrow> string list \<Rightarrow> string list
     \<Rightarrow> string list \<Rightarrow> bool" where
  "data_files fs dir pos_sub neg_sub pos_full neg_full test_full =
     (fs dir ''train_pos.txt'' = Some pos_sub \<and> fs dir ''train_neg.txt'' = Some neg_sub \<and>
      fs dir ''train_pos_full.txt'' = Some pos_full \<and>
      fs dir ''train_neg_full.txt'' = Some neg_full \<and>
      fs dir ''test_data.txt'' = Some test_full)"

text \<open>The directory that \<open>loadData\<close> reads.\<close>

definition data_dir :: "string \<Rightarrow> string option \<Rightarrow> string" where
  "data_dir DATA_DIRECTORY dataDirectory =
     (case dataDirectory of None \<Rightarrow> DATA_DIRECTORY | Some p \<Rightarrow> p)"

text \<open>A small file tree used to run the loader on concrete inputs.\<close>

definition example_files :: "string list \<Rightarrow> string list \<Rightarrow> files" where
  "example_files pos_full neg_full = (\<lambda>dir name.
     if dir \<noteq> ''data'' then None
     else if name = ''train_pos.txt'' then Some [''p'']
     else if name = ''train_neg.txt'' then Some [''n'']
     else if name = ''train_pos_full.txt'' then Some pos_full
     else if name = ''train_neg_full.txt'' then Some neg_full
     else if name = ''test_data.txt'' then Some [''t'']
     else None)"

text \<open>
  The ratios that \<open>loadData\<close> accepts when they are given explicitly, and the exception
  that it raises on each other value (\<open>None\<close> apart, which stands for \<open>"sub"\<close>).
\<close>

definition valid_ratio :: "pyval \<Rightarrow> bool" where
  "valid_ratio v = (case v of
       PyFloat (Finite r) \<Rightarrow> 0 < r \<and> r \<le> 1
     | PyInt n \<Rightarrow> n = 1
     | PyStr s \<Rightarrow> s = ''full'' \<or> s = ''sub''
     | _ \<Rightarrow> False)"

definition invalid_ratio_error :: "pyval \<Rightarrow> error" where
  "invalid_ratio_error v = (case v of
       PyFloat NaN \<Rightarrow> ValueError
     | PyFloat _ \<Rightarrow> AttributeError
     | PyStr _ \<Rightarrow> AttributeError
     | PyInt n \<Rightarrow> if float_overflows n then OverflowError else AttributeError
     | _ \<Rightarrow> AssertionError)"

section \<open>Train/test split registry (models/Model.py)\<close>





section \<open>Reporting log (experimentConfigs/experiment.py)\<close>

text \<open>
  A file of the report log holds a JSON document, or text that \<open>json.load\<close> rejects.
  \<open>json.dump\<close> raises TypeError on an object that is not a JSON value; the file,
  opened for writing before, is then left with an incomplete document.
\<close>

datatype json_file = Doc pyval | Garbage

type_synonym json_files = "string \<Rightarrow> json_file option"

fun json_serializable :: "pyval \<Rightarrow> bool" where
  "json_serializable (PyList xs) = list_all json_serializable xs"
| "json_serializable (PyDict kvs) = list_all json_serializable (map snd kvs)"
| "json_serializable (PyObject _) = False"
| "json_serializable _ = True"

definition json_dump :: "pyval \<Rightarrow> string \<Rightarrow> json_files \<Rightarrow> error option \<times> json_files" where
  "json_dump obj path fs =
     (if json_serializable obj then (None, fs(path := Some (Doc obj)))
      else (Some TypeError, fs(path := Some Garbage)))"

text \<open>Dictionary lookup \<open>d[k]\<close> and assignment \<open>d[k] = v\<close> (a new key goes last).\<close>

definition dict_get :: "(string \<times> pyval) list \<Rightarrow> string \<Rightarrow> error + pyval" where
  "dict_get kvs k = (case map_of kvs k of None \<Rightarrow> Inl KeyError | Some v \<Rightarrow> Inr v)"

fun dict_set :: "(string \<times> pyval) list \<Rightarrow> string \<Rightarrow> pyval \<Rightarrow> (string \<times> pyval) list" where
  "dict_set [] k v = [(k, v)]"
| "dict_set (p # ps) k v = (if fst p = k then (k, v) # ps else p # dict_set ps k v)"

text \<open>\<open>d.get(k, default)\<close>.\<close>

definition dict_get_default :: "(string \<times> pyval) list \<Rightarrow> string \<Rightarrow> pyval \<Rightarrow> pyval" where
  "dict_get_default kvs k dflt = (case map_of kvs k of None \<Rightarrow> dflt | Some v \<Rightarrow> v)"

text \<open>\<open>f + 1\<close> on floats, and \<open>x + 1\<close> on a loaded value.\<close>

fun float_add_one :: "pyfloat \<Rightarrow> pyfloat" where
  "float_add_one (Finite r) = Finite (r + 1)"
| "float_add_one f = f"

fun py_add_one :: "pyval \<Rightarrow> error + pyval" where
  "py_add_one (PyInt n) = Inr (PyInt (n + 1))"
| "py_add_one (PyBool b) = Inr (PyInt ((if b then 1 else 0) + 1))"
| "py_add_one (PyFloat f) = Inr (PyFloat (float_add_one f))"
| "py_add_one _ = Inl TypeError"

text \<open>\<open>xs.append(x)\<close>: only a list has the method among the values \<open>json.load\<close> returns.\<close>

fun py_append :: "pyval \<Rightarrow> pyval \<Rightarrow> error + pyval" where
  "py_append (PyList xs) x = Inr (PyList (xs @ [x]))"
| "py_append _ x = Inl AttributeError"

definition report :: "pyval \<Rightarrow> string \<Rightarrow> json_files \<Rightarrow> error option \<times> json_files" where
  "report info reportPath fs =
     (case (case fs reportPath of
              None \<Rightarrow> Inr (PyDict [(''num_experiments'', PyInt 0), (''experiments'', PyList [])])
            | Some Garbage \<Rightarrow> Inl JSONDecodeError
            | Some (Doc v) \<Rightarrow> Inr v) of
        Inl e \<Rightarrow> (Some e, fs)
      | Inr (PyDict alreadyReported) \<Rightarrow>
          (case dict_get alreadyReported ''num_experiments'' of
             Inl e \<Rightarrow> (Some e, fs)
           | Inr n \<Rightarrow>
          (case py_add_one n of
             Inl e \<Rightarrow> (Some e, fs)
           | Inr n1 \<Rightarrow>
          (let alreadyReported1 = dict_set alreadyReported ''num_experiments'' n1
           in case dict_get alreadyReported1 ''experiments'' of
                Inl e \<Rightarrow> (Some e, fs)
              | Inr experiments \<Rightarrow>
             (case py_append experiments info of
                Inl e \<Rightarrow> (Some e, fs)
              | Inr experiments1 \<Rightarrow>
                  json_dump (PyDict (dict_set alreadyReported1 ''experiments'' experiments1))
                    reportPath fs))))
      | Inr _ \<Rightarrow> (Some TypeError, fs))"


text \<open>The log document with the given records.\<close>

definition log_document :: "pyval list \<Rightarrow> pyval" where
  "log_document infos =
     PyDict [(''num_experiments'', PyInt (int (length infos))), (''experiments'', PyList infos)]"

text \<open>A file system without files.\<close>

definition no_files :: json_files where
  "no_files = (\<lambda>path. None)"

section \<open>Hyperparameter-value resolver (experimentConfigs/experiment.py)\<close>

text \<open>Truth value of a Python value, as \<open>if v:\<close> tests it.\<close>

fun truthy :: "pyval \<Rightarrow> bool" where
  "truthy PyNone = False"
| "truthy (PyBool b) = b"
| "truthy (PyInt n) = (n \<noteq> 0)"
| "truthy (PyFloat f) = (f \<noteq> Finite 0)"
| "truthy (PyStr s) = (s \<noteq> [])"
| "truthy (PyList xs) = (xs \<noteq> [])"
| "truthy (PyDict kvs) = (kvs \<noteq> [])"
| "truthy (PyObject _) = True"

definition hp_functions :: "string list" where
  "hp_functions = [''normal'', ''lognormal'', ''loguniform'', ''qlognormal'', ''qnormal'',
                   ''randint'', ''uniform'', ''uniformint'', ''choice'', ''pchoice'']"

text \<open>
  \<open>getHypervisorFunction(funcName)\<close> returns the constructor of the table under the name,
  here the name itself. A list or a dictionary cannot be looked up in the table's keys
  (it is unhashable).
\<close>

fun getHypervisorFunction :: "pyval \<Rightarrow> error + string" where
  "getHypervisorFunction (PyStr funcName) =
     (if funcName \<in> set hp_functions then Inr funcName else Inl AssertionError)"
| "getHypervisorFunction (PyList _) = Inl TypeError"
| "getHypervisorFunction (PyDict _) = Inl TypeError"
| "getHypervisorFunction _ = Inl AssertionError"

text \<open>
  \<open>getHyperoptValue(name, val)\<close>. The search-space constructors belong to the hyperopt
  library: \<open>hp f name kwargs\<close> stands for the call \<open>hpfunc(name, **kwargs)\<close> of the
  constructor named \<open>f\<close>, which returns a node or raises. \<open>**\<close> needs a dictionary.
\<close>

type_synonym hp_call = "string \<Rightarrow> string \<Rightarrow> (string \<times> pyval) list \<Rightarrow> error + pyval"

definition getHyperoptValue :: "hp_call \<Rightarrow> string \<Rightarrow> pyval \<Rightarrow> error + pyval" where
  "getHyperoptValue hp name val =
     (case val of
        PyDict kvs \<Rightarrow>
          (let answers = map (\<lambda>k. k \<in> set (map fst kvs))
                           [''use_hyperopt'', ''hyperopt_function'', ''arguments'']
           in if list_all id answers then
                (case dict_get kvs ''use_hyperopt'' of
                   Inl e \<Rightarrow> Inl e
                 | Inr use \<Rightarrow>
                     if truthy use then
                       (case dict_get kvs ''hyperopt_function'' of
                          Inl e \<Rightarrow> Inl e
                        | Inr funcName \<Rightarrow>
                       (case getHypervisorFunction funcName of
                          Inl e \<Rightarrow> Inl e
                        | Inr hpfunc \<Rightarrow>
                       (case dict_get kvs ''arguments'' of
                          Inl e \<Rightarrow> Inl e
                        | Inr (PyDict kwargs) \<Rightarrow>
                            (case hp hpfunc name kwargs of
                               Inl e \<Rightarrow> Inl e
                             | Inr node \<Rightarrow> Inr (PyDict [(name, node)]))
                        | Inr _ \<Rightarrow> Inl TypeError)))
                     else Inl AssertionError)
              else if list_ex id answers then Inl AssertionError
              else Inr val)
      | _ \<Rightarrow> Inr val)"

text \<open>\<open>k in d.keys()\<close>.\<close>

definition has_key :: "(string \<times> pyval) list \<Rightarrow> string \<Rightarrow> bool" where
  "has_key kvs k = (k \<in> set (map fst kvs))"

text \<open>
  A stand-in for the constructors of the library, which returns an object named after
  the constructor, and the descriptor of a uniform distribution.
\<close>

definition example_hp :: hp_call where
  "example_hp = (\<lambda>f name kwargs. Inr (PyObject f))"

definition uniform_descriptor :: "(string \<times> pyval) list" where
  "uniform_descriptor =
     [(''use_hyperopt'', PyBool True), (''hyperopt_function'', PyStr ''uniform''),
      (''arguments'', PyDict [(''low'', PyInt 0), (''high'', PyInt 1)])]"

section \<open>Experiment runner, hyperparameter-search branch (experimentConfigs/experiment.py)\<close>

text \<open>
  A function body reads a name from its own frame when the body binds the name (a
  parameter, an assignment target, a nested \<open>def\<close>), and from the module's globals and
  the builtins otherwise. The variables of a nested function live in the frame of each
  of its calls; they are not variables of the enclosing function (the objective nested
  in \<open>launchExperimentFromDict\<close> declares no name \<open>global\<close> or \<open>nonlocal\<close>). The lists
  below are the names bound by the two function bodies, the names bound at the top level
  of the module, and the names of the builtins.
\<close>

definition launchExperimentFromDict_bound :: "string list" where
  "launchExperimentFromDict_bound =
     [''d'', ''reportPath'', ''model'', ''model_name_or_path'', ''hyperoptActive'', ''_'',
      ''best_model_metric'', ''space'', ''getEvalsError'', ''bestHyperparametersDict'']"

definition getEvalsError_bound :: "string list" where
  "getEvalsError_bound = [''args'', ''actualArgs'', ''argName'', ''argVal'', ''evals'', ''res'']"

definition module_globals :: "string list" where
  "module_globals =
     [''__name__'', ''__doc__'', ''__package__'', ''__loader__'', ''__spec__'', ''__file__'',
      ''__cached__'', ''__builtins__'',
      ''dt'', ''enum'', ''json'', ''os'', ''sys'', ''Tuple'', ''hyperopt'', ''np'',
      ''list_metrics'', ''ModelConstruction'', ''TransformersModel'', ''ModelType'',
      ''TokenizerType'', ''report'', ''processTransformersLog'', ''launchExperimentFromDict'',
      ''getHypervisorFunction'', ''getHyperoptValue'', ''launchExperimentFromJson'', ''main'']"

definition builtins :: "string list" where
  "builtins =
     [''abs'', ''all'', ''any'', ''ascii'', ''bin'', ''bool'', ''breakpoint'', ''bytearray'',
      ''bytes'', ''callable'', ''chr'', ''classmethod'', ''compile'', ''complex'',
      ''copyright'', ''credits'', ''delattr'', ''dict'', ''dir'', ''divmod'', ''enumerate'',
      ''eval'', ''exec'', ''exit'', ''filter'', ''float'', ''format'', ''frozenset'',
      ''getattr'', ''globals'', ''hasattr'', ''hash'', ''help'', ''hex'', ''id'', ''input'',
      ''int'', ''isinstance'', ''issubclass'', ''iter'', ''len'', ''license'', ''list'',
      ''locals'', ''map'', ''max'', ''memoryview'', ''min'', ''next'', ''object'', ''oct'',
      ''open'', ''ord'', ''pow'', ''print'', ''property'', ''quit'', ''range'', ''repr'',
      ''reversed'', ''round'', ''set'', ''setattr'', ''slice'', ''sorted'', ''staticmethod'',
      ''str'', ''sum'', ''super'', ''tuple'', ''type'', ''vars'', ''zip'',
      ''__import__'', ''__build_class__'', ''__debug__'',
      ''None'', ''True'', ''False'', ''Ellipsis'', ''NotImplemented'',
      ''ArithmeticError'', ''AssertionError'', ''AttributeError'', ''BaseException'',
      ''BlockingIOError'', ''BrokenPipeError'', ''BufferError'', ''BytesWarning'',
      ''ChildProcessError'', ''ConnectionAbortedError'', ''ConnectionError'',
      ''ConnectionRefusedError'', ''ConnectionResetError'', ''DeprecationWarning'',
      ''EOFError'', ''EnvironmentError'', ''Exception'', ''FileExistsError'',
      ''FileNotFoundError'', ''FloatingPointError'', ''FutureWarning'', ''GeneratorExit'',
      ''IOError'', ''ImportError'', ''ImportWarning'', ''IndentationError'', ''IndexError'',
      ''InterruptedError'', ''IsADirectoryError'', ''KeyError'', ''KeyboardInterrupt'',
      ''LookupError'', ''MemoryError'', ''ModuleNotFoundError'', ''NameError'',
      ''NotADirectoryError'', ''NotImplementedError'', ''OSError'', ''OverflowError'',
      ''PendingDeprecationWarning'', ''PermissionError'', ''ProcessLookupError'',
      ''RecursionError'', ''ReferenceError'', ''ResourceWarning'', ''RuntimeError'',
      ''RuntimeWarning'', ''StopAsyncIteration'', ''StopIteration'', ''SyntaxError'',
      ''SyntaxWarning'', ''SystemError'', ''SystemExit'', ''TabError'', ''TimeoutError'',
      ''TypeError'', ''UnboundLocalError'', ''UnicodeDecodeError'', ''UnicodeEncodeError'',
      ''UnicodeError'', ''UnicodeTranslateError'', ''UnicodeWarning'', ''UserWarning'',
      ''ValueError'', ''Warning'', ''ZeroDivisionError'']"

text \<open>
  Reading the name \<open>name\<close> in a function whose body binds the names \<open>bound\<close> and whose
  frame holds \<open>frame\<close>. A global or a builtin is an object named by its name.
\<close>

definition load_name :: "string list \<Rightarrow> (string \<times> pyval) list \<Rightarrow> string \<Rightarrow> error + pyval" where
  "load_name bound frame name =
     (if name \<in> set bound then
        (case map_of frame name of None \<Rightarrow> Inl UnboundLocalError | Some v \<Rightarrow> Inr v)
      else if name \<in> set module_globals \<or> name \<in> set builtins then Inr (PyObject name)
      else Inl NameError)"

text \<open>\<open>v[k]\<close> for a string key: only a dictionary has one.\<close>

fun py_getitem :: "pyval \<Rightarrow> string \<Rightarrow> error + pyval" where
  "py_getitem (PyDict kvs) k = dict_get kvs k"
| "py_getitem _ k = Inl TypeError"

text \<open>
  What the branch calls outside this file: the search-space constructors, the model's
  \<open>trainModel(**actualArgs)\<close>, the score \<open>100 - np.sum(evals) / np.size(evals)\<close>, the
  minimizer \<open>hyperopt.fmin(fn, space, hyperopt.tpe.suggest, max_evals)\<close>, the attribute
  \<open>model._modelName\<close> and the clock \<open>dt.datetime.now()\<close>.
\<close>

record externals =
  hp :: hp_call
  trainModel :: "(string \<times> pyval) list \<Rightarrow> error + pyval"
  np_score :: "pyval \<Rightarrow> error + pyval"
  fmin :: "(pyval \<Rightarrow> error + pyval) \<Rightarrow> (string \<times> pyval) list \<Rightarrow> pyval \<Rightarrow> error + pyval"
  modelName :: "error + string"
  now :: pyval

text \<open>The search space: every entry of \<open>d['args']\<close> resolved, in order.\<close>

fun resolve_space :: "hp_call \<Rightarrow> (string \<times> pyval) list \<Rightarrow> error + (string \<times> pyval) list" where
  "resolve_space h [] = Inr []"
| "resolve_space h ((argName, argValue) # rest) =
     (case getHyperoptValue h argName argValue of
        Inl e \<Rightarrow> Inl e
      | Inr v \<Rightarrow>
          (case resolve_space h rest of
             Inl e \<Rightarrow> Inl e
           | Inr space \<Rightarrow> Inr ((argName, v) # space)))"

text \<open>
  The objective \<open>getEvalsError(args)\<close>, nested in \<open>launchExperimentFromDict\<close>. Its loop
  fills \<open>actualArgs\<close>; \<open>evals\<close> and \<open>res\<close> are variables of its own frame, and only the
  value of \<open>res\<close> leaves the call.
\<close>

fun actual_args ::
  "(string \<times> pyval) list \<Rightarrow> (string \<times> pyval) list \<Rightarrow> (string \<times> pyval) list
     \<Rightarrow> error + (string \<times> pyval) list" where
  "actual_args d_args [] actualArgs = Inr actualArgs"
| "actual_args d_args ((argName, argVal) # rest) actualArgs =
     (case dict_get d_args argName of
        Inl e \<Rightarrow> Inl e
      | Inr (PyDict descriptor) \<Rightarrow>
          if truthy (dict_get_default descriptor ''use_hyperopt'' (PyBool False)) then
            (case py_getitem argVal argName of
               Inl e \<Rightarrow> Inl e
             | Inr v \<Rightarrow> actual_args d_args rest (dict_set actualArgs argName v))
          else actual_args d_args rest (dict_set actualArgs argName argVal)
      | Inr _ \<Rightarrow> actual_args d_args rest (dict_set actualArgs argName argVal))"

definition getEvalsError :: "externals \<Rightarrow> (string \<times> pyval) list \<Rightarrow> pyval \<Rightarrow> error + pyval" where
  "getEvalsError ext d_args args =
     (case args of
        PyDict items \<Rightarrow>
          (case actual_args d_args items [] of
             Inl e \<Rightarrow> Inl e
           | Inr actualArgs \<Rightarrow>
               (case trainModel ext actualArgs of
                  Inl e \<Rightarrow> Inl e
                | Inr evals \<Rightarrow> np_score ext evals))
      | _ \<Rightarrow> Inl AttributeError)"

text \<open>
  The dictionary display passed to \<open>report\<close> in the branch, evaluated left to right in
  the frame of \<open>launchExperimentFromDict\<close>:
  \<^verbatim>\<open>{**bestHyperparametersDict, "results": evals, "output_dir": ..., "time_stamp": ...}\<close>
\<close>

definition hyperopt_report_info :: "externals \<Rightarrow> (string \<times> pyval) list \<Rightarrow> error + pyval" where
  "hyperopt_report_info ext frame =
     (case load_name launchExperimentFromDict_bound frame ''bestHyperparametersDict'' of
        Inl e \<Rightarrow> Inl e
      | Inr (PyDict best) \<Rightarrow>
          (case load_name launchExperimentFromDict_bound frame ''evals'' of
             Inl e \<Rightarrow> Inl e
           | Inr evals \<Rightarrow>
               (case modelName ext of
                  Inl e \<Rightarrow> Inl e
                | Inr name \<Rightarrow>
                    Inr (PyDict (dict_set
                           (dict_set (dict_set best ''results'' evals)
                              ''output_dir'' (PyStr (''./results/'' @ name)))
                           ''time_stamp'' (now ext)))))
      | Inr _ \<Rightarrow> Inl TypeError)"

text \<open>
  The \<open>else\<close> branch of \<open>launchExperimentFromDict(d, reportPath)\<close> (lines 114 to 147),
  entered when \<open>d.get('use_hyperopt', False)\<close> is true; \<open>d\<close> is a dictionary, given by its
  items. It returns the exception that ends it, if any, and the files of the report log.
\<close>

definition launchExperimentFromDict_hyperopt ::
  "externals \<Rightarrow> (string \<times> pyval) list \<Rightarrow> string \<Rightarrow> json_files
     \<Rightarrow> error option \<times> json_files" where
  "launchExperimentFromDict_hyperopt ext d reportPath fs =
     (case dict_get d ''args'' of
        Inl e \<Rightarrow> (Some e, fs)
      | Inr (PyDict d_args) \<Rightarrow>
          (case resolve_space (hp ext) d_args of
             Inl e \<Rightarrow> (Some e, fs)
           | Inr space \<Rightarrow>
          (case dict_get d ''hyperopt_max_evals'' of
             Inl e \<Rightarrow> (Some e, fs)
           | Inr max_evals \<Rightarrow>
          (case fmin ext (getEvalsError ext d_args) space max_evals of
             Inl e \<Rightarrow> (Some e, fs)
           | Inr bestHyperparametersDict \<Rightarrow>
          (case hyperopt_report_info ext
                  [(''d'', PyDict d), (''reportPath'', PyStr reportPath),
                   (''model'', PyObject ''model''),
                   (''hyperoptActive'', dict_get_default d ''use_hyperopt'' (PyBool False)),
                   (''space'', PyDict space), (''getEvalsError'', PyObject ''function''),
                   (''bestHyperparametersDict'', bestHyperparametersDict)] of
             Inl e \<Rightarrow> (Some e, fs)
           | Inr info \<Rightarrow> report info reportPath fs))))
      | Inr _ \<Rightarrow> (Some AttributeError, fs))"

text \<open>
  A run of the branch on concrete inputs: a configuration with one searched argument,
  and externals whose minimizer runs one trial and returns its sample as the best.
\<close>

definition example_externals :: externals where
  "example_externals =
     \<lparr>hp = example_hp,
      trainModel = (\<lambda>actualArgs. Inr (PyList [PyFloat (Finite 90)])),
      np_score = (\<lambda>evals. Inr (PyFloat (Finite 10))),
      fmin = (\<lambda>fn space max_evals.
                case fn (PyDict [(''lr'', PyDict [(''lr'', PyFloat (Finite (1 / 2)))])]) of
                  Inl e \<Rightarrow> Inl e
                | Inr loss \<Rightarrow> Inr (PyDict [(''lr'', PyFloat (Finite (1 / 2)))])),
      modelName = Inr ''roberta'',
      now = PyObject ''datetime''\<rparr>"

definition example_config :: "(string \<times> pyval) list" where
  "example_config =
     [(''model_type'', PyStr ''transformers''),
      (''model_name_or_path'', PyStr ''roberta-base''),
      (''metric'', PyStr ''accuracy''),
      (''data_load_ratio'', PyStr ''sub''),
      (''use_hyperopt'', PyBool True),
      (''hyperopt_max_evals'', PyInt 1),
      (''args'', PyDict [(''lr'', PyDict uniform_descriptor)])]"

section \<open>Hashtag adjustment (explorations/hashtagExperiment.py)\<close>

text \<open>
  A text is a list of code points. \<open>str.split()\<close> cuts it at runs of white space and
  returns the pieces that are not empty.
\<close>

type_synonym ustr = "nat list"

definition isspace :: "nat \<Rightarrow> bool" where
  "isspace c = (c \<in> set [9, 10, 11, 12, 13, 28, 29, 30, 31, 32, 133, 160, 5760,
                          8192, 8193, 8194, 8195, 8196, 8197, 8198, 8199, 8200, 8201, 8202,
                          8232, 8233, 8239, 8287, 12288])"

fun split_from :: "ustr \<Rightarrow> ustr \<Rightarrow> ustr list" where
  "split_from word [] = (if word = [] then [] else [rev word])"
| "split_from word (c # cs) =
     (if isspace c then (if word = [] then split_from [] cs else rev word # split_from [] cs)
      else split_from (c # word) cs)"

definition py_split :: "ustr \<Rightarrow> ustr list" where
  "py_split s = split_from [] s"

text \<open>The code point of the hashtag marker \<open>#\<close>.\<close>

definition hash_mark :: nat where
  "hash_mark = 35"

text \<open>
  The hashtag sentiment table (\<open>models/hashtag.json\<close>, read by \<open>load_hashtag_config\<close>):
  an entry for some tags.
\<close>

record hashtag_entry =
  PosFreq :: real
  NegFreq :: real
  PosRatio :: real
  NegRatio :: real

type_synonym hashtag_table = "ustr \<Rightarrow> hashtag_entry option"

text \<open>
  \<open>torch.softmax\<close> and \<open>torch.argmax\<close> on a vector, in exact arithmetic; \<open>argmax\<close>
  returns the index of the first largest entry.
\<close>

definition softmax :: "real list \<Rightarrow> real list" where
  "softmax xs = map (\<lambda>x. exp x / sum_list (map exp xs)) xs"

fun argmax_from :: "real \<Rightarrow> nat \<Rightarrow> nat \<Rightarrow> real list \<Rightarrow> nat" where
  "argmax_from best besti i [] = besti"
| "argmax_from best besti i (x # xs) =
     (if x > best then argmax_from x i (Suc i) xs else argmax_from best besti (Suc i) xs)"

definition argmax :: "real list \<Rightarrow> nat" where
  "argmax xs = (case xs of [] \<Rightarrow> 0 | x # rest \<Rightarrow> argmax_from x 0 1 rest)"

text \<open>
  One pass of the loop of \<open>predict_by_hashtag\<close> over a word \<open>_w\<close>, on the pair
  \<open>(pred_neg_prob, pred_pos_prob)\<close>.
\<close>

definition hashtag_step ::
  "hashtag_table \<Rightarrow> real \<Rightarrow> real \<Rightarrow> real \<times> real \<Rightarrow> ustr \<Rightarrow> real \<times> real" where
  "hashtag_step hashtag_dict freq_threshold prob_threshold acc w =
     (case acc of (pred_neg_prob, pred_pos_prob) \<Rightarrow>
        if (w \<noteq> [] \<and> hd w = hash_mark) \<and> length w > 1 then
          (case hashtag_dict (tl w) of
             None \<Rightarrow> (pred_neg_prob, pred_pos_prob)
           | Some tag \<Rightarrow>
               if (PosFreq tag > freq_threshold \<or> NegFreq tag > freq_threshold) \<and>
                  (NegRatio tag > prob_threshold \<or> PosRatio tag > prob_threshold)
               then (pred_neg_prob + NegRatio tag, pred_pos_prob + PosRatio tag)
               else (pred_neg_prob, pred_pos_prob))
        else (pred_neg_prob, pred_pos_prob))"

definition predict_by_hashtag ::
  "hashtag_table \<Rightarrow> ustr \<Rightarrow> real \<Rightarrow> real \<Rightarrow> real \<Rightarrow> real \<Rightarrow> int" where
  "predict_by_hashtag hashtag_dict txt pred_pos_prob pred_neg_prob freq_threshold prob_threshold =
     (case foldl (hashtag_step hashtag_dict freq_threshold prob_threshold)
             (pred_neg_prob, pred_pos_prob) (py_split txt) of
        (neg, pos) \<Rightarrow>
          (let pred = int (argmax (softmax [neg, pos]))
           in if pred = 0 then - 1 else pred))"

text \<open>A prediction row, and a row with the column \<open>new_prediction\<close>.\<close>

record row =
  row_id :: int
  score :: real
  prediction :: int
  row_text :: ustr

record scored_row = row +
  new_prediction :: int

text \<open>\<open>_hashtag_matters(data_line, freq_threshold, prob_threshold)\<close>.\<close>

definition hashtag_matters_row :: "hashtag_table \<Rightarrow> real \<Rightarrow> real \<Rightarrow> row \<Rightarrow> int" where
  "hashtag_matters_row hashtag_dict freq_threshold prob_threshold r =
     (if hash_mark \<in> set (row_text r) then
        (case (if prediction r = 1 then (score r, 1 - score r) else (1 - score r, score r)) of
           (pos_prob, neg_prob) \<Rightarrow>
             predict_by_hashtag hashtag_dict (row_text r) pos_prob neg_prob
               freq_threshold prob_threshold)
      else prediction r)"

text \<open>
  \<open>hashtag_matters(data, freq_threshold, prob_threshold)\<close> applies the adjustment to every
  row and stores the results in the column \<open>new_prediction\<close>. The table has at least one
  row in every use of the source; what \<open>apply\<close> returns for a table without rows is left
  to pandas and is not part of this model.
\<close>

definition hashtag_matters :: "hashtag_table \<Rightarrow> real \<Rightarrow> real \<Rightarrow> row list \<Rightarrow> scored_row list" where
  "hashtag_matters hashtag_dict freq_threshold prob_threshold data =
     map (\<lambda>r. \<lparr>row_id = row_id r, score = score r, prediction = prediction r,
               row_text = row_text r,
               new_prediction = hashtag_matters_row hashtag_dict freq_threshold prob_threshold r\<rparr>)
       data"


text \<open>
  Concrete inputs: a table whose only tag \<open>x\<close> has low frequencies, and two rows with the
  text \<open>#x\<close> and the prediction \<open>+1\<close>, one with a score below one half.
\<close>

definition low_freq_table :: hashtag_table where
  "low_freq_table = (\<lambda>tag. if tag = [120] then
       Some \<lparr>PosFreq = 1, NegFreq = 1, PosRatio = 9 / 10, NegRatio = 1 / 10\<rparr> else None)"

definition low_score_row :: row where
  "low_score_row = \<lparr>row_id = 1, score = 1 / 4, prediction = 1, row_text = [35, 120]\<rparr>"

definition high_score_row :: row where
  "high_score_row = \<lparr>row_id = 2, score = 3 / 4, prediction = 1, row_text = [35, 120]\<rparr>"

section \<open>Submission file (experimentConfigs/transformersPredictWithHashtag.py)\<close>

text \<open>Decimal text of an integer, as \<open>to_csv\<close> writes it.\<close>

fun show_nat :: "nat \<Rightarrow> string" where
  "show_nat n =
     (if n < 10 then [''0123456789'' ! n]
      else show_nat (n div 10) @ [''0123456789'' ! (n mod 10)])"

declare show_nat.simps [simp del]

definition show_int :: "int \<Rightarrow> string" where
  "show_int i = (if i < 0 then CHR ''-'' # show_nat (nat (- i)) else show_nat (nat i))"

text \<open>
  The table \<open>{Id, Prediction}\<close> built from the held prediction table and sorted by
  \<open>Id\<close>. Both columns hold integers already, so \<open>astype(int)\<close> leaves them as they are.
  The order that \<open>sort_values\<close> gives to rows with the same \<open>Id\<close> is not fixed by pandas;
  here they keep their order.
\<close>

definition submission_table :: "scored_row list \<Rightarrow> (int \<times> int) list" where
  "submission_table pred_df =
     sort_key fst (map (\<lambda>r. (row_id r, new_prediction r)) pred_df)"

text \<open>\<open>to_csv(save_path, index=False)\<close>: the lines of the file, the header first.\<close>

definition csv_line :: "int \<times> int \<Rightarrow> string" where
  "csv_line p = show_int (fst p) @ '','' @ show_int (snd p)"

definition to_csv :: "(int \<times> int) list \<Rightarrow> string list" where
  "to_csv tbl = ''Id,Prediction'' # map csv_line tbl"

text \<open>
  \<open>submissionToFile(save_path)\<close> writes the lines to \<open>save_path\<close>, by default the file
  \<open>submission.csv\<close> of \<open>load_path\<close>.
\<close>

type_synonym text_files = "string \<Rightarrow> string list option"

definition submissionToFile ::
  "string \<Rightarrow> scored_row list \<Rightarrow> string option \<Rightarrow> text_files \<Rightarrow> text_files" where
  "submissionToFile load_path pred_df save_path fs =
     (let path = (case save_path of None \<Rightarrow> load_path @ ''/submission.csv'' | Some p \<Rightarrow> p)
      in fs(path := Some (to_csv (submission_table pred_df))))"

text \<open>Reading a line of the file back: the fields between commas, and a decimal number.\<close>

fun fields_from :: "string \<Rightarrow> string \<Rightarrow> string list" where
  "fields_from field [] = [rev field]"
| "fields_from field (c # cs) =
     (if c = CHR '','' then rev field # fields_from [] cs else fields_from (c # field) cs)"

definition csv_fields :: "string \<Rightarrow> string list" where
  "csv_fields line = fields_from [] line"

definition digit_value :: "char \<Rightarrow> nat" where
  "digit_value c = of_char c - 48"

definition read_nat :: "string \<Rightarrow> nat" where
  "read_nat s = foldl (\<lambda>a c. 10 * a + digit_value c) 0 s"

definition read_int :: "string \<Rightarrow> int" where
  "read_int s = (case s of [] \<Rightarrow> 0
                 | c # cs \<Rightarrow> if c = CHR ''-'' then - int (read_nat cs) else int (read_nat s))"

text \<open>A held prediction table with unsorted ids.\<close>

definition example_predictions :: "scored_row list" where
  "example_predictions =
     [\<lparr>row_id = 3, score = 9 / 10, prediction = 1, row_text = [104, 105], new_prediction = 1\<rparr>,
      \<lparr>row_id = 1, score = 3 / 4, prediction = - 1, row_text = [35, 120], new_prediction = - 1\<rparr>,
      \<lparr>row_id = 2, score = 1 / 2, prediction = 1, row_text = [111], new_prediction = 1\<rparr>]"

section \<open>Properties of the dataset loader\<close>


lemma loadData_files:
  assumes "data_files fs (data_dir D dd) pos_sub neg_sub pos_full neg_full test_full"
  shows "loadData D g fs dd ratio0 =
     (case loadData_select g (if ratio0 = PyNone then PyStr ''sub'' else ratio0)
             pos_sub neg_sub pos_full neg_full of
        Inl e \<Rightarrow> Inl e
      | Inr (pos, neg) \<Rightarrow> Inr (pos, neg, test_full))"
  using assms by (simp add: loadData_def data_files_def data_dir_def readlines_def)

lemma example_files_data:
  "data_files (example_files pf nf) (data_dir ''data'' None) [''p''] [''n''] pf nf [''t'']"
  by (simp add: data_files_def data_dir_def example_files_def)

lemma select_invalid:
  assumes "ratio \<noteq> PyNone" "\<not> valid_ratio ratio"
  shows "loadData_select g ratio ps ns pf nf = Inl (invalid_ratio_error ratio)"
proof (cases ratio)
  case (PyFloat f)
  with assms show ?thesis
    by (cases f) (auto simp: loadData_select_def valid_ratio_def invalid_ratio_error_def)
next
  case (PyInt n)
  with assms show ?thesis
    by (auto simp: loadData_select_def valid_ratio_def invalid_ratio_error_def py_float_def)
qed (use assms in \<open>auto simp: loadData_select_def valid_ratio_def invalid_ratio_error_def\<close>)


lemma loadData_Inl:
  assumes "\<And>ps ns pf nf. \<exists>e. loadData_select g (if ratio = PyNone then PyStr ''sub'' else ratio) ps ns pf nf = Inl e"
  shows "\<exists>e. loadData D g fs dd ratio = Inl e"
proof -
  define R where "R = (if ratio = PyNone then PyStr ''sub'' else ratio)"
  from assms obtain E where E: "\<And>ps ns pf nf. loadData_select g R ps ns pf nf = Inl (E ps ns pf nf)"
    unfolding R_def by metis
  show ?thesis
    unfolding loadData_def Let_def R_def [symmetric]
    by (simp add: E split: sum.split)
qed





text \<open>
  Claim C3, as the code has it. A ratio of \<open>None\<close> is replaced by \<open>"sub"\<close> and loads the
  sample sets. Every other ratio that is not \<open>"full"\<close>, \<open>"sub"\<close>, a float in \<open>(0, 1]\<close> or the
  integer 1 makes \<open>loadData\<close> fail, whatever the files hold; when the five data files are
  readable the exception is the AttributeError of the source for a float \<open>\<le> 0\<close> or \<open>> 1\<close>
  (the infinities included), for an integer other than 1 and for any other string; the
  failed type assertion for a value of another type; ValueError for NaN; OverflowError
  for an integer beyond the range of a float.
\<close>

theorem loadData_invalid_ratio:
  assumes "ratio \<noteq> PyNone" and "\<not> valid_ratio ratio"
  shows "(\<exists>e. loadData D g fs dd ratio = Inl e) \<and>
         (data_files fs (data_dir D dd) pos_sub neg_sub pos_full neg_full test_full \<longrightarrow>
            loadData D g fs dd ratio = Inl (invalid_ratio_error ratio))"
proof
  show "\<exists>e. loadData D g fs dd ratio = Inl e"
    by (rule loadData_Inl) (use assms in \<open>simp add: select_invalid\<close>)
  show "data_files fs (data_dir D dd) pos_sub neg_sub pos_full neg_full test_full \<longrightarrow>
            loadData D g fs dd ratio = Inl (invalid_ratio_error ratio)"
    using assms by (simp add: loadData_files select_invalid)
qed

theorem loadData_invalid_ratio_witness:
  "loadData ''data'' (\<lambda>i. 0) (example_files [''a''] [''b'']) None (PyFloat (Finite 2))
     = Inl AttributeError \<and>
   loadData ''data'' (\<lambda>i. 0) (example_files [''a''] [''b'']) None (PyFloat (Finite 0))
     = Inl AttributeError \<and>
   loadData ''data'' (\<lambda>i. 0) (example_files [''a''] [''b'']) None (PyInt 2)
     = Inl AttributeError \<and>
   loadData ''data'' (\<lambda>i. 0) (example_files [''a''] [''b'']) None (PyStr ''half'')
     = Inl AttributeError \<and>
   loadData ''data'' (\<lambda>i. 0) (example_files [''a''] [''b'']) None (PyBool True)
     = Inl AssertionError \<and>
   loadData ''data'' (\<lambda>i. 0) (example_files [''a''] [''b'']) None (PyFloat NaN)
     = Inl ValueError"
proof -
  note files = example_files_data [of "[''a'']" "[''b'']"]
  have inst: "loadData ''data'' (\<lambda>i. 0) (example_files [''a''] [''b'']) None ratio
                = Inl (invalid_ratio_error ratio)"
    if "ratio \<noteq> PyNone" and "\<not> valid_ratio ratio" for ratio
    using loadData_invalid_ratio [OF that, of "''data''" "\<lambda>i. 0"
        "example_files [''a''] [''b'']" None "[''p'']" "[''n'']" "[''a'']" "[''b'']" "[''t'']"] files
    by blast
  show ?thesis
    by (simp add: inst valid_ratio_def invalid_ratio_error_def float_overflows_def)
qed

text \<open>The claim as stated fails on \<open>None\<close>: the call returns the sample sets.\<close>

theorem loadData_None_counterexample:
  "loadData ''data'' (\<lambda>i. 0) (example_files [''a''] [''b'']) None PyNone
     = Inr ([''p''], [''n''], [''t''])"
  by (simp add: loadData_files [OF example_files_data] loadData_select_def)






section \<open>Properties of the train/test split\<close>






section \<open>Properties of the reporting log\<close>


lemma dict_get_dict_set_same: "dict_get (dict_set kvs k v) k = Inr v"
  by (induction kvs) (auto simp: dict_get_def)


lemma json_serializable_log_document:
  "json_serializable (log_document infos) = list_all json_serializable infos"
  by (simp add: log_document_def)





lemma report_not_serializable:
  assumes "fs reportPath = None" and "\<not> json_serializable info"
  shows "report info reportPath fs = (Some TypeError, fs(reportPath := Some Garbage))"
  using assms by (simp add: report_def dict_get_def json_dump_def)



section \<open>Properties of the hyperparameter-value resolver\<close>

lemma dict_get_has_key: "dict_get kvs k = Inr v \<Longrightarrow> has_key kvs k"
  by (auto simp: dict_get_def has_key_def split: option.splits dest: map_of_SomeD intro: rev_image_eqI)

lemma has_key_dict_get: "has_key kvs k \<Longrightarrow> \<exists>v. dict_get kvs k = Inr v"
  by (cases "map_of kvs k") (auto simp: dict_get_def has_key_def map_of_eq_None_iff)

lemma getHyperoptValue_dict:
  "getHyperoptValue h name (PyDict kvs) =
     (if has_key kvs ''use_hyperopt'' \<and> has_key kvs ''hyperopt_function'' \<and> has_key kvs ''arguments''
      then (case dict_get kvs ''use_hyperopt'' of
              Inl e \<Rightarrow> Inl e
            | Inr use \<Rightarrow>
                if truthy use then
                  (case dict_get kvs ''hyperopt_function'' of
                     Inl e \<Rightarrow> Inl e
                   | Inr funcName \<Rightarrow>
                  (case getHypervisorFunction funcName of
                     Inl e \<Rightarrow> Inl e
                   | Inr hpfunc \<Rightarrow>
                  (case dict_get kvs ''arguments'' of
                     Inl e \<Rightarrow> Inl e
                   | Inr (PyDict kwargs) \<Rightarrow>
                       (case h hpfunc name kwargs of
                          Inl e \<Rightarrow> Inl e
                        | Inr node \<Rightarrow> Inr (PyDict [(name, node)]))
                   | Inr _ \<Rightarrow> Inl TypeError)))
                else Inl AssertionError)
      else if has_key kvs ''use_hyperopt'' \<or> has_key kvs ''hyperopt_function'' \<or> has_key kvs ''arguments''
      then Inl AssertionError
      else Inr (PyDict kvs))"
  unfolding getHyperoptValue_def has_key_def Let_def by simp

text \<open>
  Claim C5, as the code has it. For a dictionary with the three keys whose
  \<open>use_hyperopt\<close> is true, resolution returns the one-entry dictionary from the argument
  name to the constructed node, provided \<open>hyperopt_function\<close> names one of the ten
  supported constructors, \<open>arguments\<close> is a dictionary and the constructor returns a node.
  With the three keys and a false \<open>use_hyperopt\<close> it fails an assertion; with some but not
  all of the three keys it fails an assertion; a value that is not a dictionary is
  returned unchanged.
\<close>

theorem getHyperoptValue_descriptor:
  "(dict_get kvs ''use_hyperopt'' = Inr use \<and> truthy use \<and>
    dict_get kvs ''hyperopt_function'' = Inr (PyStr f) \<and> f \<in> set hp_functions \<and>
    dict_get kvs ''arguments'' = Inr (PyDict kwargs) \<and> h f name kwargs = Inr node
      \<longrightarrow> getHyperoptValue h name (PyDict kvs) = Inr (PyDict [(name, node)])) \<and>
   (dict_get kvs ''use_hyperopt'' = Inr use \<and> \<not> truthy use \<and>
    has_key kvs ''hyperopt_function'' \<and> has_key kvs ''arguments''
      \<longrightarrow> getHyperoptValue h name (PyDict kvs) = Inl AssertionError) \<and>
   ((has_key kvs ''use_hyperopt'' \<or> has_key kvs ''hyperopt_function'' \<or> has_key kvs ''arguments'') \<and>
    \<not> (has_key kvs ''use_hyperopt'' \<and> has_key kvs ''hyperopt_function'' \<and> has_key kvs ''arguments'')
      \<longrightarrow> getHyperoptValue h name (PyDict kvs) = Inl AssertionError) \<and>
   ((\<forall>kvs'. val \<noteq> PyDict kvs') \<longrightarrow> getHyperoptValue h name val = Inr val)"
proof (intro conjI impI)
  assume a: "dict_get kvs ''use_hyperopt'' = Inr use \<and> truthy use \<and>
    dict_get kvs ''hyperopt_function'' = Inr (PyStr f) \<and> f \<in> set hp_functions \<and>
    dict_get kvs ''arguments'' = Inr (PyDict kwargs) \<and> h f name kwargs = Inr node"
  then have "has_key kvs ''use_hyperopt''" "has_key kvs ''hyperopt_function''" "has_key kvs ''arguments''"
    by (auto dest: dict_get_has_key)
  with a show "getHyperoptValue h name (PyDict kvs) = Inr (PyDict [(name, node)])"
    by (simp add: getHyperoptValue_dict)
next
  assume a: "dict_get kvs ''use_hyperopt'' = Inr use \<and> \<not> truthy use \<and>
    has_key kvs ''hyperopt_function'' \<and> has_key kvs ''arguments''"
  then have "has_key kvs ''use_hyperopt''"
    by (auto dest: dict_get_has_key)
  with a show "getHyperoptValue h name (PyDict kvs) = Inl AssertionError"
    by (simp add: getHyperoptValue_dict)
next
  assume "(has_key kvs ''use_hyperopt'' \<or> has_key kvs ''hyperopt_function'' \<or> has_key kvs ''arguments'') \<and>
    \<not> (has_key kvs ''use_hyperopt'' \<and> has_key kvs ''hyperopt_function'' \<and> has_key kvs ''arguments'')"
  then show "getHyperoptValue h name (PyDict kvs) = Inl AssertionError"
    by (simp only: getHyperoptValue_dict if_False if_True)
next
  assume "\<forall>kvs'. val \<noteq> PyDict kvs'"
  then show "getHyperoptValue h name val = Inr val"
    by (cases val) (simp_all add: getHyperoptValue_def)
qed

theorem getHyperoptValue_descriptor_witness:
  "getHyperoptValue example_hp ''lr'' (PyDict uniform_descriptor)
     = Inr (PyDict [(''lr'', PyObject ''uniform'')]) \<and>
   getHyperoptValue example_hp ''lr''
     (PyDict [(''use_hyperopt'', PyBool False), (''hyperopt_function'', PyStr ''uniform''),
              (''arguments'', PyDict [])]) = Inl AssertionError \<and>
   getHyperoptValue example_hp ''lr''
     (PyDict [(''use_hyperopt'', PyBool True), (''hyperopt_function'', PyStr ''uniform'')])
     = Inl AssertionError \<and>
   getHyperoptValue example_hp ''lr'' (PyFloat (Finite (1 / 2))) = Inr (PyFloat (Finite (1 / 2)))"
proof (intro conjI)
  show "getHyperoptValue example_hp ''lr'' (PyDict uniform_descriptor)
     = Inr (PyDict [(''lr'', PyObject ''uniform'')])"
    using getHyperoptValue_descriptor [of uniform_descriptor "PyBool True" "''uniform''"
        "[(''low'', PyInt 0), (''high'', PyInt 1)]" example_hp "''lr''" "PyObject ''uniform''" PyNone]
    by (simp add: uniform_descriptor_def dict_get_def hp_functions_def example_hp_def)
  show "getHyperoptValue example_hp ''lr''
     (PyDict [(''use_hyperopt'', PyBool False), (''hyperopt_function'', PyStr ''uniform''),
              (''arguments'', PyDict [])]) = Inl AssertionError"
    using getHyperoptValue_descriptor [of "[(''use_hyperopt'', PyBool False),
        (''hyperopt_function'', PyStr ''uniform''), (''arguments'', PyDict [])]" "PyBool False"
        "''uniform''" "[]" example_hp "''lr''" "PyObject ''uniform''" PyNone]
    by (simp add: dict_get_def has_key_def)
  show "getHyperoptValue example_hp ''lr''
     (PyDict [(''use_hyperopt'', PyBool True), (''hyperopt_function'', PyStr ''uniform'')])
     = Inl AssertionError"
    using getHyperoptValue_descriptor [of "[(''use_hyperopt'', PyBool True),
        (''hyperopt_function'', PyStr ''uniform'')]" "PyBool True"
        "''uniform''" "[]" example_hp "''lr''" "PyObject ''uniform''" PyNone]
    by (simp add: dict_get_def has_key_def)
  show "getHyperoptValue example_hp ''lr'' (PyFloat (Finite (1 / 2))) = Inr (PyFloat (Finite (1 / 2)))"
    using getHyperoptValue_descriptor [of "[]" PyNone "[]" "[]" example_hp "''lr''" PyNone
        "PyFloat (Finite (1 / 2))"]
    by simp
qed

text \<open>
  The claim as stated fails when \<open>hyperopt_function\<close> is not a supported name: the
  assertion of \<open>getHypervisorFunction\<close> fails, and no mapping is returned.
\<close>

theorem getHyperoptValue_unsupported_counterexample:
  "getHyperoptValue example_hp ''lr''
     (PyDict [(''use_hyperopt'', PyBool True), (''hyperopt_function'', PyStr ''bogus''),
              (''arguments'', PyDict [(''low'', PyInt 0), (''high'', PyInt 1)])])
     = Inl AssertionError"
  by (simp add: getHyperoptValue_def dict_get_def hp_functions_def)

section \<open>Properties of the hyperparameter-search branch\<close>

lemma load_name_evals:
  "load_name launchExperimentFromDict_bound frame ''evals'' = Inl NameError"
  by (simp add: load_name_def launchExperimentFromDict_bound_def module_globals_def builtins_def)

lemma evals_bound_in_objective: "''evals'' \<in> set getEvalsError_bound"
  by (simp add: getEvalsError_bound_def)

lemma hyperopt_report_info_fails:
  "hyperopt_report_info ext frame =
     (case load_name launchExperimentFromDict_bound frame ''bestHyperparametersDict'' of
        Inl e \<Rightarrow> Inl e
      | Inr (PyDict best) \<Rightarrow> Inl NameError
      | Inr _ \<Rightarrow> Inl TypeError)"
  unfolding hyperopt_report_info_def load_name_evals
  by (simp split: sum.split pyval.split)

lemma hyperopt_report_info_Inl: "\<exists>e. hyperopt_report_info ext frame = Inl e"
  unfolding hyperopt_report_info_fails
  by (simp split: sum.split pyval.split)

text \<open>
  Claim C1 does not hold of the code. The claim: after the minimizer has completed its
  trials, the branch appends one report record that holds the best hyperparameters, the
  evaluations of the last trial, the output directory and a time stamp. The code: the
  record is built from the name \<open>evals\<close>, which is a variable of the nested objective
  and not of \<open>launchExperimentFromDict\<close>, of the module or of the builtins. So whatever
  the configuration, the externals and the files are, the branch ends with an exception
  and leaves the files of the report log as they were; and once the minimizer has
  returned its dictionary, the exception is the NameError of that read.
\<close>

theorem launchExperimentFromDict_hyperopt_never_reports:
  "fst (launchExperimentFromDict_hyperopt ext d reportPath fs) \<noteq> None \<and>
   snd (launchExperimentFromDict_hyperopt ext d reportPath fs) = fs \<and>
   (dict_get d ''args'' = Inr (PyDict d_args) \<and>
    resolve_space (hp ext) d_args = Inr space \<and>
    dict_get d ''hyperopt_max_evals'' = Inr max_evals \<and>
    fmin ext (getEvalsError ext d_args) space max_evals = Inr (PyDict best)
      \<longrightarrow> launchExperimentFromDict_hyperopt ext d reportPath fs = (Some NameError, fs))"
proof -
  obtain E where E: "\<And>frame. hyperopt_report_info ext frame = Inl (E frame)"
    using hyperopt_report_info_Inl by metis
  have 1: "fst (launchExperimentFromDict_hyperopt ext d reportPath fs) \<noteq> None"
    unfolding launchExperimentFromDict_hyperopt_def
    by (simp add: E split: sum.split pyval.split)
  have 2: "snd (launchExperimentFromDict_hyperopt ext d reportPath fs) = fs"
    unfolding launchExperimentFromDict_hyperopt_def
    by (simp add: E split: sum.split pyval.split)
  have 3: "launchExperimentFromDict_hyperopt ext d reportPath fs = (Some NameError, fs)"
    if "dict_get d ''args'' = Inr (PyDict d_args)"
      "resolve_space (hp ext) d_args = Inr space"
      "dict_get d ''hyperopt_max_evals'' = Inr max_evals"
      "fmin ext (getEvalsError ext d_args) space max_evals = Inr (PyDict best)"
  proof -
    have "hyperopt_report_info ext
            [(''d'', PyDict d), (''reportPath'', PyStr reportPath),
             (''model'', PyObject ''model''),
             (''hyperoptActive'', dict_get_default d ''use_hyperopt'' (PyBool False)),
             (''space'', PyDict space), (''getEvalsError'', PyObject ''function''),
             (''bestHyperparametersDict'', PyDict best)] = Inl NameError"
      unfolding hyperopt_report_info_fails
      by (simp add: load_name_def launchExperimentFromDict_bound_def)
    with that show ?thesis
      unfolding launchExperimentFromDict_hyperopt_def by simp
  qed
  from 1 2 3 show ?thesis by blast
qed

theorem launchExperimentFromDict_hyperopt_never_reports_witness:
  "fmin example_externals
     (getEvalsError example_externals [(''lr'', PyDict uniform_descriptor)])
     [(''lr'', PyDict [(''lr'', PyObject ''uniform'')])] (PyInt 1)
     = Inr (PyDict [(''lr'', PyFloat (Finite (1 / 2)))]) \<and>
   launchExperimentFromDict_hyperopt example_externals example_config ''report.json'' no_files
     = (Some NameError, no_files)"
proof -
  have a: "dict_get example_config ''args'' = Inr (PyDict [(''lr'', PyDict uniform_descriptor)])"
    by (simp add: example_config_def dict_get_def)
  have b: "resolve_space (hp example_externals) [(''lr'', PyDict uniform_descriptor)]
             = Inr [(''lr'', PyDict [(''lr'', PyObject ''uniform'')])]"
    by (simp add: example_externals_def example_hp_def getHyperoptValue_def uniform_descriptor_def
          dict_get_def hp_functions_def)
  have c: "dict_get example_config ''hyperopt_max_evals'' = Inr (PyInt 1)"
    by (simp add: example_config_def dict_get_def)
  have e: "fmin example_externals
     (getEvalsError example_externals [(''lr'', PyDict uniform_descriptor)])
     [(''lr'', PyDict [(''lr'', PyObject ''uniform'')])] (PyInt 1)
     = Inr (PyDict [(''lr'', PyFloat (Finite (1 / 2)))])"
    by (simp add: example_externals_def getEvalsError_def uniform_descriptor_def dict_get_def
          dict_get_default_def)
  from launchExperimentFromDict_hyperopt_never_reports
    [of example_externals example_config "''report.json''" no_files
        "[(''lr'', PyDict uniform_descriptor)]" "[(''lr'', PyDict [(''lr'', PyObject ''uniform'')])]"
        "PyInt 1" "[(''lr'', PyFloat (Finite (1 / 2)))]"]
    a b c e
  have "launchExperimentFromDict_hyperopt example_externals example_config ''report.json'' no_files
     = (Some NameError, no_files)"
    by blast
  with e show ?thesis by (rule conjI)
qed

section \<open>Properties of the hashtag adjustment\<close>

lemma argmax_softmax_pair: "argmax (softmax [n, p]) = (if n < p then 1 else 0)"
proof -
  have pos: "0 < exp n + exp p" by (simp add: add_pos_pos)
  have "(exp n / (exp n + exp p) < exp p / (exp n + exp p)) = (n < p)"
    using pos by (simp add: divide_less_cancel)
  then show ?thesis
    by (simp add: argmax_def softmax_def)
qed

lemma predict_by_hashtag_eq:
  "predict_by_hashtag tbl txt pos neg ft pt =
     (case foldl (hashtag_step tbl ft pt) (neg, pos) (py_split txt) of
        (n, p) \<Rightarrow> if n < p then 1 else - 1)"
  by (simp add: predict_by_hashtag_def argmax_softmax_pair split: prod.split)




lemma py_split_hash_x: "py_split [35, 120] = [[35, 120]]"
  by (simp add: py_split_def isspace_def)

text \<open>A blank, \<open>a\<close>, two blanks, \<open>#b\<close>, a tab, \<open>c\<close> and a blank split into \<open>a\<close>, \<open>#b\<close> and \<open>c\<close>.\<close>

lemma py_split_example:
  "py_split [32, 97, 32, 32, 35, 98, 9, 99, 32] = [[97], [35, 98], [99]]"
  by (simp add: py_split_def isspace_def)

lemma predict_by_hashtag_range:
  "predict_by_hashtag tbl txt pos neg ft pt = 1 \<or> predict_by_hashtag tbl txt pos neg ft pt = - 1"
  by (simp add: predict_by_hashtag_eq split: prod.split)




text \<open>
  Claim C10. \<open>predict_by_hashtag\<close> returns \<open>-1\<close> or \<open>+1\<close> for every text and every pair of
  probabilities; so the adjustment of a row whose prediction is \<open>-1\<close> or \<open>+1\<close> is \<open>-1\<close> or
  \<open>+1\<close>, and the column \<open>new_prediction\<close> that \<open>hashtag_matters\<close> produces from such rows
  holds only \<open>-1\<close> and \<open>+1\<close>.
\<close>

theorem new_prediction_range:
  "predict_by_hashtag hashtag_dict txt pred_pos_prob pred_neg_prob freq_threshold prob_threshold
     \<in> {- 1, 1} \<and>
   (prediction r \<in> {- 1, 1}
      \<longrightarrow> hashtag_matters_row hashtag_dict freq_threshold prob_threshold r \<in> {- 1, 1}) \<and>
   ((\<forall>r\<in>set data. prediction r \<in> {- 1, 1})
      \<longrightarrow> (\<forall>s\<in>set (hashtag_matters hashtag_dict freq_threshold prob_threshold data).
             new_prediction s \<in> {- 1, 1}))"
proof -
  have p: "predict_by_hashtag hashtag_dict t pos neg freq_threshold prob_threshold \<in> {- 1, 1}"
    for t pos neg
    using predict_by_hashtag_range [of hashtag_dict t pos neg freq_threshold prob_threshold] by auto
  have m: "hashtag_matters_row hashtag_dict freq_threshold prob_threshold x \<in> {- 1, 1}"
    if "prediction x \<in> {- 1, 1}" for x
    using that p by (simp add: hashtag_matters_row_def split: prod.split)
  have "\<forall>s\<in>set (hashtag_matters hashtag_dict freq_threshold prob_threshold data).
             new_prediction s \<in> {- 1, 1}"
    if "\<forall>r\<in>set data. prediction r \<in> {- 1, 1}"
    using that m by (auto simp: hashtag_matters_def)
  with p m show ?thesis by blast
qed

theorem new_prediction_range_witness:
  "prediction low_score_row \<in> {- 1, 1} \<and>
   hashtag_matters_row low_freq_table 500 (7 / 10) low_score_row \<in> {- 1, 1} \<and>
   map new_prediction (hashtag_matters low_freq_table 500 (7 / 10) [low_score_row, high_score_row])
     = [- 1, 1]"
proof -
  have a: "prediction low_score_row \<in> {- 1, 1}" by (simp add: low_score_row_def)
  from new_prediction_range [of low_freq_table "[]" 0 0 500 "7 / 10" low_score_row "[]"] a
  have b: "hashtag_matters_row low_freq_table 500 (7 / 10) low_score_row \<in> {- 1, 1}"
    by blast
  have c: "map new_prediction (hashtag_matters low_freq_table 500 (7 / 10) [low_score_row, high_score_row])
     = [- 1, 1]"
    by (simp add: hashtag_matters_def low_freq_table_def low_score_row_def high_score_row_def
          hashtag_matters_row_def hash_mark_def predict_by_hashtag_eq py_split_hash_x hashtag_step_def)
  from a b c show ?thesis by blast
qed

section \<open>Properties of the submission file\<close>

lemma digit_disj:
  "k < (10::nat) \<Longrightarrow>
     k = 0 \<or> k = 1 \<or> k = 2 \<or> k = 3 \<or> k = 4 \<or> k = 5 \<or> k = 6 \<or> k = 7 \<or> k = 8 \<or> k = 9"
  by presburger

lemma digit_value_nth: "k < 10 \<Longrightarrow> digit_value (''0123456789'' ! k) = k"
  using digit_disj [of k] by (auto simp: digit_value_def)

lemma digit_nth_in: "k < 10 \<Longrightarrow> ''0123456789'' ! k \<in> set ''0123456789''"
  using digit_disj [of k] by auto

lemma set_show_nat: "set (show_nat n) \<subseteq> set ''0123456789''"
proof (induction n rule: show_nat.induct)
  case (1 n)
  show ?case
  proof (cases "n < 10")
    case True
    then have "show_nat n = [''0123456789'' ! n]" by (simp add: show_nat.simps)
    with digit_nth_in [OF True] show ?thesis by simp
  next
    case False
    then have eq: "show_nat n = show_nat (n div 10) @ [''0123456789'' ! (n mod 10)]"
      by (simp add: show_nat.simps)
    have "n mod 10 < 10" by simp
    from digit_nth_in [OF this] "1.IH" [OF False] show ?thesis
      unfolding eq by simp
  qed
qed

lemma show_nat_not_Nil: "show_nat n \<noteq> []"
  by (subst show_nat.simps) simp

lemma read_nat_snoc: "read_nat (s @ [c]) = 10 * read_nat s + digit_value c"
  by (simp add: read_nat_def)

lemma read_nat_show_nat: "read_nat (show_nat n) = n"
proof (induction n rule: show_nat.induct)
  case (1 n)
  show ?case
  proof (cases "n < 10")
    case True
    then have "show_nat n = [''0123456789'' ! n]" by (simp add: show_nat.simps)
    then show ?thesis using digit_value_nth [OF True] by (simp add: read_nat_def)
  next
    case False
    then have eq: "show_nat n = show_nat (n div 10) @ [''0123456789'' ! (n mod 10)]"
      by (simp add: show_nat.simps)
    have m: "n mod 10 < 10" by simp
    have "read_nat (show_nat n) = 10 * read_nat (show_nat (n div 10)) + n mod 10"
      unfolding eq read_nat_snoc digit_value_nth [OF m] ..
    also have "\<dots> = 10 * (n div 10) + n mod 10"
      using "1.IH" [OF False] by simp
    also have "\<dots> = n" by simp
    finally show ?thesis .
  qed
qed

lemma no_minus_show_nat: "CHR ''-'' \<notin> set (show_nat n)"
  using set_show_nat [of n] by auto

lemma no_comma_show_nat: "CHR '','' \<notin> set (show_nat n)"
  using set_show_nat [of n] by auto

lemma no_comma_show_int: "CHR '','' \<notin> set (show_int i)"
  by (simp add: show_int_def no_comma_show_nat)

lemma read_int_show_int: "read_int (show_int i) = i"
proof (cases "i < 0")
  case True
  then show ?thesis by (simp add: show_int_def read_int_def read_nat_show_nat)
next
  case False
  obtain c cs where cs: "show_nat (nat i) = c # cs"
    using show_nat_not_Nil [of "nat i"] by (cases "show_nat (nat i)") auto
  then have "c \<noteq> CHR ''-''"
    using no_minus_show_nat [of "nat i"] by auto
  with False cs show ?thesis
    using read_nat_show_nat [of "nat i"] by (simp add: show_int_def read_int_def)
qed

lemma fields_from_no_comma: "CHR '','' \<notin> set s \<Longrightarrow> fields_from field s = [rev field @ s]"
  by (induction s arbitrary: field) auto

lemma fields_from_comma:
  "CHR '','' \<notin> set a \<Longrightarrow> fields_from field (a @ CHR '','' # b) = (rev field @ a) # fields_from [] b"
  by (induction a arbitrary: field) auto

lemma csv_fields_csv_line: "csv_fields (csv_line (i, p)) = [show_int i, show_int p]"
  using fields_from_comma [OF no_comma_show_int, of "[]" i "show_int p"]
    fields_from_no_comma [OF no_comma_show_int, of "[]" p]
  by (simp add: csv_fields_def csv_line_def)

lemma show_nat_digit: "n < 10 \<Longrightarrow> show_nat n = [''0123456789'' ! n]"
  by (simp add: show_nat.simps)

text \<open>
  Claim C8. \<open>submissionToFile\<close> writes, at the save path, the header \<open>Id,Prediction\<close>
  followed by one line for each row of the held prediction table: the lines come from
  the pairs of \<open>id\<close> and \<open>new_prediction\<close> of the rows, each pair once, sorted ascending by
  \<open>Id\<close>; a line has exactly two fields, the decimal texts of \<open>Id\<close> and \<open>Prediction\<close> (no index
  column), which read back as the two integers; and every \<open>Prediction\<close> is \<open>-1\<close> or \<open>+1\<close> when
  every \<open>new_prediction\<close> is.
\<close>

theorem submission_file_shape:
  "submissionToFile load_path pred_df save_path fs
      (case save_path of None \<Rightarrow> load_path @ ''/submission.csv'' | Some p \<Rightarrow> p)
     = Some (''Id,Prediction'' # map csv_line (submission_table pred_df)) \<and>
   length (submission_table pred_df) = length pred_df \<and>
   sorted (map fst (submission_table pred_df)) \<and>
   mset (submission_table pred_df) = mset (map (\<lambda>r. (row_id r, new_prediction r)) pred_df) \<and>
   csv_fields (csv_line (i, p)) = [show_int i, show_int p] \<and>
   read_int (show_int i) = i \<and>
   ((\<forall>r\<in>set pred_df. new_prediction r = 1 \<or> new_prediction r = - 1)
      \<longrightarrow> (\<forall>q\<in>set (submission_table pred_df). snd q = 1 \<or> snd q = - 1))"
proof (intro conjI impI)
  show "submissionToFile load_path pred_df save_path fs
      (case save_path of None \<Rightarrow> load_path @ ''/submission.csv'' | Some p \<Rightarrow> p)
     = Some (''Id,Prediction'' # map csv_line (submission_table pred_df))"
    by (simp add: submissionToFile_def to_csv_def Let_def)
  show "length (submission_table pred_df) = length pred_df"
    by (simp add: submission_table_def)
  show "sorted (map fst (submission_table pred_df))"
    unfolding submission_table_def by (rule sorted_sort_key)
  show "mset (submission_table pred_df) = mset (map (\<lambda>r. (row_id r, new_prediction r)) pred_df)"
    by (simp add: submission_table_def)
  show "csv_fields (csv_line (i, p)) = [show_int i, show_int p]"
    by (rule csv_fields_csv_line)
  show "read_int (show_int i) = i"
    by (rule read_int_show_int)
next
  assume a: "\<forall>r\<in>set pred_df. new_prediction r = 1 \<or> new_prediction r = - 1"
  have "set (submission_table pred_df) = (\<lambda>r. (row_id r, new_prediction r)) ` set pred_df"
    by (simp add: submission_table_def)
  with a show "\<forall>q\<in>set (submission_table pred_df). snd q = 1 \<or> snd q = - 1"
    by auto
qed

theorem submission_file_shape_witness:
  "list_all (\<lambda>r. new_prediction r = 1 \<or> new_prediction r = - 1) example_predictions \<and>
   submissionToFile ''out'' example_predictions None (\<lambda>path. None) ''out/submission.csv''
     = Some [''Id,Prediction'', ''1,-1'', ''2,1'', ''3,1'']"
proof -
  have t: "submission_table example_predictions = [(1, - 1), (2, 1), (3, 1)]"
    by (simp add: submission_table_def example_predictions_def)
  have l: "map csv_line [(1, - 1), (2, 1), (3, 1)] = [''1,-1'', ''2,1'', ''3,1'']"
    by (simp add: csv_line_def show_int_def show_nat_digit)
  from submission_file_shape [of "''out''" example_predictions None "\<lambda>path. None" 0 0]
  have "submissionToFile ''out'' example_predictions None (\<lambda>path. None) ''out/submission.csv''
     = Some (''Id,Prediction'' # map csv_line (submission_table example_predictions))"
    by simp
  then have "submissionToFile ''out'' example_predictions None (\<lambda>path. None) ''out/submission.csv''
     = Some [''Id,Prediction'', ''1,-1'', ''2,1'', ''3,1'']"
    unfolding t l .
  moreover have "list_all (\<lambda>r. new_prediction r = 1 \<or> new_prediction r = - 1) example_predictions"
    by (simp add: example_predictions_def)
  ultimately show ?thesis by blast
qed

end
